theory Spec2Isabelle
  imports Complex_Main "HOL-Library.Word"
begin

section \<open>Layered documents\<close>

text \<open>
  The three scripts under \<^verbatim>\<open>scripts/vhs\<close> read a layered document through
  \<^verbatim>\<open>psd_tools\<close>. They use a layer's \<^verbatim>\<open>name\<close>, \<^verbatim>\<open>kind\<close> (read with
  \<^verbatim>\<open>getattr(layer, "kind", None)\<close>, so it may be absent), \<^verbatim>\<open>bbox\<close>
  (left, top, right, bottom), the \<^verbatim>\<open>visible\<close> flag, \<^verbatim>\<open>is_group()\<close> and, for a
  group, the iteration over its children. Names are not unique.
\<close>

type_synonym bbox = "int \<times> int \<times> int \<times> int"

datatype layer =
  Layer (layer_name: string) (layer_kind: "string option") (layer_bbox: bbox)
        (layer_visible: bool) (is_group: bool) (children: "layer list")

record document =
  psd_width :: nat
  psd_height :: nat
  psd_layers :: "layer list"

subsection \<open>Traversal and lookup by exact name (prototype and inventory scripts)\<close>

text \<open>
  \<^verbatim>\<open>iter_layers(group)\<close> of \<^verbatim>\<open>prototype_black_case_front.py\<close> and
  \<^verbatim>\<open>inspect_black_case_psb.py\<close>: a generator that yields a layer and then, when the layer
  is a group, everything \<^verbatim>\<open>iter_layers\<close> yields for it. The list is the sequence of
  yielded layers.
\<close>

fun iter_layers :: "layer list \<Rightarrow> layer list" where
  "iter_layers [] = []"
| "iter_layers (Layer n k b v g cs # rest) =
     Layer n k b v g cs # (if g then iter_layers cs else []) @ iter_layers rest"

text \<open>The loop of \<^verbatim>\<open>find_layer\<close>: return at the first layer whose name is equal.\<close>

fun find_layer_loop :: "string \<Rightarrow> layer list \<Rightarrow> layer option" where
  "find_layer_loop exact_name [] = None"
| "find_layer_loop exact_name (l # ls) =
     (if layer_name l = exact_name then Some l else find_layer_loop exact_name ls)"

definition find_layer :: "document \<Rightarrow> string \<Rightarrow> layer option" where
  "find_layer psd exact_name = find_layer_loop exact_name (iter_layers (psd_layers psd))"

text \<open>
  Depth-first preorder as the specification words it: a layer, then (for a group) the
  preorders of its children in document order.
\<close>

fun preorder :: "layer \<Rightarrow> layer list" where
  "preorder (Layer n k b v g cs) =
     Layer n k b v g cs # (if g then concat (map preorder cs) else [])"

definition example_tree :: document where
  "example_tree = \<lparr>psd_width = 4, psd_height = 4, psd_layers =
     [Layer ''G'' (Some ''group'') (0, 0, 4, 4) True True
        [Layer ''x'' (Some ''pixel'') (0, 0, 1, 1) True False [],
         Layer ''y'' (Some ''pixel'') (1, 1, 2, 2) True False []],
      Layer ''y'' (Some ''smartobject'') (2, 2, 3, 3) True False [],
      Layer ''x'' (Some ''pixel'') (3, 3, 4, 4) False False []]\<rparr>"

section \<open>Lookup by exact name\<close>

lemma iter_layers_preorder: "iter_layers ls = concat (map preorder ls)"
  by (induction ls rule: iter_layers.induct) simp_all

lemma find_layer_loop_None:
  "find_layer_loop n ls = None \<longleftrightarrow> (\<forall>l\<in>set ls. layer_name l \<noteq> n)"
  by (induction ls) auto

lemma find_layer_loop_Some:
  "find_layer_loop n ls = Some l \<Longrightarrow>
     \<exists>i<length ls. ls ! i = l \<and> layer_name l = n \<and> (\<forall>j<i. layer_name (ls ! j) \<noteq> n)"
proof (induction ls)
  case Nil
  then show ?case by simp
next
  case (Cons a ls)
  show ?case
  proof (cases "layer_name a = n")
    case True
    with Cons.prems have "a = l" by simp
    with True have "(a # ls) ! 0 = l \<and> layer_name l = n \<and> (\<forall>j<0. layer_name ((a # ls) ! j) \<noteq> n)"
      by simp
    then show ?thesis by blast
  next
    case False
    with Cons.prems have "find_layer_loop n ls = Some l" by simp
    from Cons.IH [OF this] obtain i where i: "i < length ls" "ls ! i = l" "layer_name l = n"
      "\<forall>j<i. layer_name (ls ! j) \<noteq> n" by blast
    have "\<forall>j<Suc i. layer_name ((a # ls) ! j) \<noteq> n"
    proof (intro allI impI)
      fix j assume "j < Suc i"
      then show "layer_name ((a # ls) ! j) \<noteq> n"
        using False i(4) by (cases j) simp_all
    qed
    with i have "Suc i < length (a # ls) \<and> (a # ls) ! Suc i = l \<and> layer_name l = n \<and>
        (\<forall>j<Suc i. layer_name ((a # ls) ! j) \<noteq> n)"
      by simp
    then show ?thesis by blast
  qed
qed

text \<open>
  C10. \<^verbatim>\<open>find_layer\<close> of the prototype script walks the document in depth-first preorder
  (a group before its children, children in document order). It returns \<open>None\<close> exactly
  when no layer of that traversal has the name, and otherwise the layer at the least
  position of the traversal whose name is equal, whatever later layers share the name.
\<close>

theorem find_layer_first_in_preorder:
  "iter_layers (psd_layers psd) = concat (map preorder (psd_layers psd)) \<and>
   (find_layer psd n = None \<longleftrightarrow> (\<forall>l\<in>set (iter_layers (psd_layers psd)). layer_name l \<noteq> n)) \<and>
   (\<forall>l. find_layer psd n = Some l \<longrightarrow>
      (\<exists>i<length (iter_layers (psd_layers psd)).
          iter_layers (psd_layers psd) ! i = l \<and> layer_name l = n \<and>
          (\<forall>j<i. layer_name (iter_layers (psd_layers psd) ! j) \<noteq> n)))"
  unfolding find_layer_def
  using iter_layers_preorder find_layer_loop_None find_layer_loop_Some by blast

theorem find_layer_first_in_preorder_witness:
  "find_layer example_tree ''y'' = Some (Layer ''y'' (Some ''pixel'') (1, 1, 2, 2) True False []) \<and>
   find_layer example_tree ''z'' = None \<and>
   (\<exists>i<length (iter_layers (psd_layers example_tree)).
      iter_layers (psd_layers example_tree) ! i
        = Layer ''y'' (Some ''pixel'') (1, 1, 2, 2) True False [] \<and>
      (\<forall>j<i. layer_name (iter_layers (psd_layers example_tree) ! j) \<noteq> ''y''))"
proof -
  have found: "find_layer example_tree ''y''
      = Some (Layer ''y'' (Some ''pixel'') (1, 1, 2, 2) True False [])"
    by (simp add: find_layer_def example_tree_def)
  have absent: "\<forall>l\<in>set (iter_layers (psd_layers example_tree)). layer_name l \<noteq> ''z''"
    by (simp add: example_tree_def)
  from find_layer_first_in_preorder [of example_tree "''y''"] found
  have "\<exists>i<length (iter_layers (psd_layers example_tree)).
      iter_layers (psd_layers example_tree) ! i
        = Layer ''y'' (Some ''pixel'') (1, 1, 2, 2) True False [] \<and>
      (\<forall>j<i. layer_name (iter_layers (psd_layers example_tree) ! j) \<noteq> ''y'')"
    by blast
  moreover from find_layer_first_in_preorder [of example_tree "''z''"] absent
  have "find_layer example_tree ''z'' = None" by blast
  ultimately show ?thesis using found by blast
qed

end
